theory Spec2Isabelle
  imports Main "HOL-Library.Word" "HOL-Library.Sublist"
begin

section \<open>Data model of the VoiceAgent component\<close>

text \<open>
  JavaScript strings are sequences of UTF-16 code units. String literals of the source
  are ASCII, so they are embedded through \<open>js\<close>.
\<close>

type_synonym jsstring = "16 word list"

definition js :: "string \<Rightarrow> jsstring" where
  "js s = map (\<lambda>c. of_nat (of_char c)) s"

text \<open>
  \<open>String.prototype.trim\<close> strips the code units of the ECMAScript productions
  WhiteSpace and LineTerminator from both ends. All of them lie in the basic plane.
\<close>

definition isWhiteSpace :: "16 word \<Rightarrow> bool" where
  "isWhiteSpace u = (u \<in> set [0x0009, 0x000A, 0x000B, 0x000C, 0x000D, 0x0020, 0x00A0,
     0x1680, 0x2000, 0x2001, 0x2002, 0x2003, 0x2004, 0x2005, 0x2006, 0x2007, 0x2008,
     0x2009, 0x200A, 0x2028, 0x2029, 0x202F, 0x205F, 0x3000, 0xFEFF])"

definition trim :: "jsstring \<Rightarrow> jsstring" where
  "trim s = rev (dropWhile isWhiteSpace (rev (dropWhile isWhiteSpace s)))"

text \<open>
  The template literal of the close handler renders \<open>event.code\<close>, an unsigned short,
  in decimal: no sign, no leading zero, no exponent.
\<close>

definition digit :: "nat \<Rightarrow> 16 word" where
  "digit d = of_nat (48 + d)"

function toString :: "nat \<Rightarrow> jsstring" where
  "toString n = (if n < 10 then [digit n] else toString (n div 10) @ [digit (n mod 10)])"
  by pat_completeness auto
termination
  by (relation "measure id") auto

declare toString.simps [simp del]

text \<open>
  What a decimal numeral denotes, read off the string itself and without reference to
  \<open>toString\<close>: the string is non-empty, every code unit is one of \<open>0\<close> to \<open>9\<close>, there
  is no leading zero except in the numeral \<open>0\<close>, and the value is accumulated digit by
  digit from the left. Any other string denotes nothing.
\<close>

definition isDigit :: "16 word \<Rightarrow> bool" where
  "isDigit u = (0x30 \<le> u \<and> u \<le> 0x39)"

definition digit_value :: "16 word \<Rightarrow> nat" where
  "digit_value u = unat u - 48"

definition numeral_value :: "jsstring \<Rightarrow> nat option" where
  "numeral_value ds =
     (if ds \<noteq> [] \<and> list_all isDigit ds \<and> (length ds = 1 \<or> hd ds \<noteq> 0x30)
      then Some (foldl (\<lambda>a u. 10 * a + digit_value u) 0 ds)
      else None)"

text \<open>\<open>Array<{type: 'user' | 'agent', text: string}>\<close>\<close>

datatype role = user | agent

record message =
  msg_type :: role
  msg_text :: jsstring

text \<open>The handle returned by \<open>Millis.createClient\<close>, identified by its configuration.\<close>

record MillisClient =
  publicKey :: jsstring
  endPoint :: jsstring

text \<open>
  The hooks of the component: five \<open>useState\<close> cells and the \<open>msClientRef\<close> ref
  (\<open>messagesEndRef\<close> is a DOM node used for scrolling only).
\<close>

record component =
  inputText :: jsstring
  isListening :: bool
  transcript :: jsstring
  messages :: "message list"
  msClientRef :: "MillisClient option"
  permissionGranted :: bool
  connectionError :: "jsstring option"

definition initial :: component where
  "initial = \<lparr>inputText = [], isListening = False, transcript = [], messages = [],
     msClientRef = None, permissionGranted = False, connectionError = None\<rparr>"

text \<open>The variables of \<open>process.env\<close> the component reads; each may be undefined.\<close>

record env =
  NEXT_PUBLIC_MILLIS_PUBLIC_KEY :: "jsstring option"
  NEXT_PUBLIC_MILLIS_API_KEY :: "jsstring option"
  NEXT_PUBLIC_MILLIS_AGENT_ID :: "jsstring option"
  NEXT_PUBLIC_USE_OPENAI_PROXY :: "jsstring option"

text \<open>The argument of \<open>msClient.start\<close>, nested objects flattened.\<close>

record start_config =
  agent_id :: "jsstring option"
  apiKey :: "jsstring option"
  useOpenAIProxy :: bool
  include_metadata_in_prompt :: bool

text \<open>
  The SDK is external. Its calls are recorded in the order the component makes them, and
  whether a call returns or throws is an input of the model.
\<close>

datatype sdk_call = ClientStart start_config | ClientStop

datatype sdk_outcome = Returns | Throws

text \<open>Whether \<open>getUserMedia\<close> resolves with a stream or rejects.\<close>

datatype probe = Resolves | Rejects

text \<open>A synchronous handler either returns or lets an exception escape.\<close>

datatype completion = Returned component | Threw component

fun state_of :: "completion \<Rightarrow> component" where
  "state_of (Returned c) = c"
| "state_of (Threw c) = c"

fun threw :: "completion \<Rightarrow> bool" where
  "threw (Returned c) = False"
| "threw (Threw c) = True"

section \<open>Event handlers registered by setupEventListeners\<close>

text \<open>The payload \<open>{ is_final?: boolean }\<close>; an absent field is falsy.\<close>

record payload =
  is_final :: "bool option"

definition truthy_final :: "payload \<Rightarrow> bool" where
  "truthy_final p = (is_final p = Some True)"

record CloseEvent =
  code :: "16 word"
  reason :: jsstring

definition onopen :: "component \<Rightarrow> component" where
  "onopen c = c\<lparr>connectionError := None\<rparr>"

definition onready :: "component \<Rightarrow> component" where
  "onready c = c"

definition onaudio :: "component \<Rightarrow> component" where
  "onaudio c = c"

definition onresponsetext :: "jsstring \<Rightarrow> payload \<Rightarrow> component \<Rightarrow> component" where
  "onresponsetext text p c =
     (if truthy_final p
      then c\<lparr>messages := messages c @ [\<lparr>msg_type = agent, msg_text = text\<rparr>]\<rparr>
      else c)"

definition ontranscript :: "jsstring \<Rightarrow> payload \<Rightarrow> component \<Rightarrow> component" where
  "ontranscript text p c =
     (let c1 = c\<lparr>transcript := text\<rparr>
      in if truthy_final p \<and> text \<noteq> []
         then c1\<lparr>messages := messages c1 @ [\<lparr>msg_type = user, msg_text = text\<rparr>]\<rparr>
         else c1)"

definition useraudioready :: "component \<Rightarrow> component" where
  "useraudioready c = c"

definition onsessionended :: "component \<Rightarrow> component" where
  "onsessionended c = c\<lparr>isListening := False\<rparr>"

definition close_message :: "CloseEvent \<Rightarrow> jsstring" where
  "close_message ev =
     js ''Connection closed unexpectedly (code: '' @ toString (unat (code ev)) @
     js ''). Reason: '' @ (if reason ev \<noteq> [] then reason ev else js ''Unknown'')"

definition onclose :: "CloseEvent \<Rightarrow> component \<Rightarrow> component" where
  "onclose ev c =
     (let c1 = c\<lparr>isListening := False\<rparr>
      in if code ev \<noteq> 1000
         then c1\<lparr>connectionError := Some (close_message ev)\<rparr>
         else c1)"

definition onerror :: "component \<Rightarrow> component" where
  "onerror c = c\<lparr>isListening := False,
     connectionError := Some (js ''An error occurred with the voice connection. Please try again.'')\<rparr>"

datatype event =
    E_onopen
  | E_onready
  | E_onaudio
  | E_onresponsetext jsstring payload
  | E_ontranscript jsstring payload
  | E_useraudioready
  | E_onsessionended
  | E_onclose CloseEvent
  | E_onerror

fun dispatch :: "event \<Rightarrow> component \<Rightarrow> component" where
  "dispatch E_onopen c = onopen c"
| "dispatch E_onready c = onready c"
| "dispatch E_onaudio c = onaudio c"
| "dispatch (E_onresponsetext text p) c = onresponsetext text p c"
| "dispatch (E_ontranscript text p) c = ontranscript text p c"
| "dispatch E_useraudioready c = useraudioready c"
| "dispatch E_onsessionended c = onsessionended c"
| "dispatch (E_onclose ev) c = onclose ev c"
| "dispatch E_onerror c = onerror c"

text \<open>A run of transcript events, delivered to the handler one after the other.\<close>

fun transcripts :: "(jsstring \<times> payload) list \<Rightarrow> component \<Rightarrow> component" where
  "transcripts [] c = c"
| "transcripts ((text, p) # evs) c = transcripts evs (ontranscript text p c)"

section \<open>Operations of the component\<close>

text \<open>
  A function of the component body is a closure of one render: it reads the
  \<open>useState\<close> values of that render (\<open>snap\<close>), while the setters act on the state as it
  is when they run (\<open>c\<close>) and the ref \<open>msClientRef.current\<close> is read from \<open>c\<close>.
\<close>

definition checkMicrophonePermission :: "probe \<Rightarrow> component \<Rightarrow> component" where
  "checkMicrophonePermission pr c =
     (case pr of
        Resolves \<Rightarrow> c\<lparr>permissionGranted := True\<rparr>
      | Rejects \<Rightarrow> c\<lparr>connectionError :=
            Some (js ''Microphone access is required for the voice agent to work.''),
          permissionGranted := False\<rparr>)"

definition start_request :: "env \<Rightarrow> start_config" where
  "start_request e = \<lparr>agent_id = NEXT_PUBLIC_MILLIS_AGENT_ID e,
     apiKey = NEXT_PUBLIC_MILLIS_API_KEY e,
     useOpenAIProxy = (NEXT_PUBLIC_USE_OPENAI_PROXY e = Some (js ''true'')),
     include_metadata_in_prompt = True\<rparr>"

text \<open>The part of \<open>startVoiceAgent\<close> after the permission guard.\<close>

definition start_session :: "env \<Rightarrow> sdk_outcome \<Rightarrow> component \<Rightarrow> sdk_call list \<times> component" where
  "start_session e out c =
     (if msClientRef c = None
      then ([], c\<lparr>connectionError :=
              Some (js ''Client initialization failed. Please refresh the page.'')\<rparr>)
      else
        (let c1 = c\<lparr>connectionError := None\<rparr>
         in case out of
              Returns \<Rightarrow> ([ClientStart (start_request e)], c1\<lparr>isListening := True\<rparr>)
            | Throws \<Rightarrow> ([ClientStart (start_request e)], c1\<lparr>connectionError :=
                Some (js ''Failed to start the voice agent. Please try again.'')\<rparr>)))"

text \<open>
  \<open>permissionGranted\<close> is a constant of the render that created the closure, so the
  second test of the guard reads the same value as the first, whatever the probe did.
\<close>

definition startVoiceAgent ::
  "env \<Rightarrow> probe \<Rightarrow> sdk_outcome \<Rightarrow> component \<Rightarrow> component \<Rightarrow> sdk_call list \<times> component" where
  "startVoiceAgent e pr out snap c =
     (if \<not> permissionGranted snap
      then
        (let c1 = checkMicrophonePermission pr c
         in if \<not> permissionGranted snap then ([], c1) else start_session e out c1)
      else start_session e out c)"

text \<open>
  \<open>stopVoiceAgent\<close> has no handler around \<open>msClientRef.current.stop()\<close>: an exception of
  the SDK escapes before \<open>setIsListening(false)\<close>.
\<close>

definition stopVoiceAgent :: "sdk_outcome \<Rightarrow> component \<Rightarrow> sdk_call list \<times> completion" where
  "stopVoiceAgent out c =
     (if msClientRef c \<noteq> None
      then (case out of
              Returns \<Rightarrow> ([ClientStop], Returned (c\<lparr>isListening := False\<rparr>))
            | Throws \<Rightarrow> ([ClientStop], Threw c))
      else ([], Returned (c\<lparr>isListening := False\<rparr>)))"

definition handleSubmit :: "component \<Rightarrow> component \<Rightarrow> sdk_call list \<times> component" where
  "handleSubmit snap c =
     (if trim (inputText snap) \<noteq> []
      then ([], c\<lparr>messages := messages c @ [\<lparr>msg_type = user, msg_text = inputText snap\<rparr>],
                  inputText := []\<rparr>)
      else ([], c))"

text \<open>The \<open>onChange\<close> handler of the input field.\<close>

definition onChange :: "jsstring \<Rightarrow> component \<Rightarrow> component" where
  "onChange v c = c\<lparr>inputText := v\<rparr>"

text \<open>The preview of the partial transcript is rendered under \<open>transcript && isListening\<close>.\<close>

definition showsTranscript :: "component \<Rightarrow> bool" where
  "showsTranscript c = (transcript c \<noteq> [] \<and> isListening c)"

subsection \<open>The mount effect and its cleanup\<close>

definition createClient :: "env \<Rightarrow> MillisClient" where
  "createClient e =
     \<lparr>publicKey = (case NEXT_PUBLIC_MILLIS_PUBLIC_KEY e of
          None \<Rightarrow> js ''F0DzXOcj6UDsfULztsNQuS4HBXDJntNg''
        | Some k \<Rightarrow> if k \<noteq> [] then k else js ''F0DzXOcj6UDsfULztsNQuS4HBXDJntNg''),
      endPoint = js ''wss://api-eu-west.millis.ai/millis''\<rparr>"

text \<open>
  The cleanup is a closure of the render in which the effect ran: \<open>isListening\<close> is that
  render's value, \<open>msClientRef.current\<close> is read when the cleanup runs.
\<close>

definition cleanup :: "component \<Rightarrow> component \<Rightarrow> sdk_call list" where
  "cleanup snap c = (if msClientRef c \<noteq> None \<and> isListening snap then [ClientStop] else [])"

definition mount_effect ::
  "env \<Rightarrow> probe \<Rightarrow> component \<Rightarrow> component \<Rightarrow> component \<times> (component \<Rightarrow> sdk_call list)" where
  "mount_effect e pr snap c =
     (let c1 = (if msClientRef c = None then c\<lparr>msClientRef := Some (createClient e)\<rparr> else c)
      in (checkMicrophonePermission pr c1, cleanup snap))"

text \<open>
  The dependency list of the effect is empty, so it runs once, after the first render,
  whose state is \<open>initial\<close>; the cleanup it returns is the one run at unmount.
\<close>

definition mount :: "env \<Rightarrow> probe \<Rightarrow> component \<times> (component \<Rightarrow> sdk_call list)" where
  "mount e pr = mount_effect e pr initial initial"

definition unmount :: "env \<Rightarrow> probe \<Rightarrow> component \<Rightarrow> sdk_call list" where
  "unmount e pr c = snd (mount e pr) c"

subsection \<open>One step of the component\<close>

datatype action =
    A_mount env probe
  | A_event event
  | A_checkMicrophonePermission probe
  | A_startVoiceAgent env probe sdk_outcome
  | A_stopVoiceAgent sdk_outcome
  | A_handleSubmit
  | A_onChange jsstring

fun step :: "action \<Rightarrow> component \<Rightarrow> component \<Rightarrow> component" where
  "step (A_mount e pr) snap c = fst (mount_effect e pr snap c)"
| "step (A_event ev) snap c = dispatch ev c"
| "step (A_checkMicrophonePermission pr) snap c = checkMicrophonePermission pr c"
| "step (A_startVoiceAgent e pr out) snap c = snd (startVoiceAgent e pr out snap c)"
| "step (A_stopVoiceAgent out) snap c = state_of (snd (stopVoiceAgent out c))"
| "step A_handleSubmit snap c = snd (handleSubmit snap c)"
| "step (A_onChange v) snap c = onChange v c"

subsection \<open>Concrete inputs used to exercise the theorems\<close>

definition demo_env :: env where
  "demo_env = \<lparr>NEXT_PUBLIC_MILLIS_PUBLIC_KEY = None, NEXT_PUBLIC_MILLIS_API_KEY = None,
     NEXT_PUBLIC_MILLIS_AGENT_ID = None, NEXT_PUBLIC_USE_OPENAI_PROXY = None\<rparr>"

text \<open>
  The component after its mount effect with the microphone granted or refused, after a
  successful start, and after a partial transcript arrived during the session.
\<close>

definition mounted :: component where
  "mounted = fst (mount demo_env Resolves)"

definition denied :: component where
  "denied = fst (mount demo_env Rejects)"

definition listening :: component where
  "listening = snd (startVoiceAgent demo_env Resolves Returns mounted mounted)"

definition previewing :: component where
  "previewing = ontranscript (js ''hel'') \<lparr>is_final = None\<rparr> listening"

lemma mounted_eq:
  "mounted = initial\<lparr>msClientRef := Some (createClient demo_env), permissionGranted := True\<rparr>"
  by (simp add: mounted_def mount_def mount_effect_def checkMicrophonePermission_def initial_def)

lemma denied_eq:
  "denied = initial\<lparr>msClientRef := Some (createClient demo_env),
     connectionError := Some (js ''Microphone access is required for the voice agent to work.''),
     permissionGranted := False\<rparr>"
  by (simp add: denied_def mount_def mount_effect_def checkMicrophonePermission_def initial_def)

lemma listening_eq:
  "listening = initial\<lparr>msClientRef := Some (createClient demo_env), permissionGranted := True,
     isListening := True\<rparr>"
  by (simp add: listening_def mounted_eq startVoiceAgent_def start_session_def initial_def)

lemma previewing_eq:
  "previewing = initial\<lparr>msClientRef := Some (createClient demo_env), permissionGranted := True,
     isListening := True, transcript := js ''hel''\<rparr>"
  by (simp add: previewing_def listening_eq ontranscript_def truthy_final_def Let_def initial_def)

section \<open>Transcript and response events\<close>

lemma ontranscript_messages:
  "messages (ontranscript t p c) =
     messages c @
     (if is_final p = Some True \<and> t \<noteq> [] then [\<lparr>msg_type = user, msg_text = t\<rparr>] else [])"
  by (simp add: ontranscript_def truthy_final_def Let_def)

lemma transcripts_messages:
  "messages (transcripts evs c) =
     messages c @ map (\<lambda>(t, p). \<lparr>msg_type = user, msg_text = t\<rparr>)
       (filter (\<lambda>(t, p). is_final p = Some True \<and> t \<noteq> []) evs)"
proof (induction evs arbitrary: c)
  case Nil
  show ?case by simp
next
  case (Cons ev evs)
  obtain t p where ev: "ev = (t, p)" by (cases ev)
  show ?case
    unfolding ev by (simp add: Cons.IH ontranscript_messages)
qed

text \<open>
  C1. After any run of transcript events the Message list is the old list followed by one
  user Message for each event that is final with non-empty text, in the order of arrival.
  A single final event with non-empty text appends exactly that one Message, and an event
  that is not final changes nothing but the partial transcript.
\<close>

theorem ontranscript_appends:
  "messages (transcripts evs c) =
     messages c @ map (\<lambda>(t, p). \<lparr>msg_type = user, msg_text = t\<rparr>)
       (filter (\<lambda>(t, p). is_final p = Some True \<and> t \<noteq> []) evs) \<and>
   (is_final p = Some True \<and> text \<noteq> [] \<longrightarrow>
      messages (ontranscript text p c) =
        messages c @ [\<lparr>msg_type = user, msg_text = text\<rparr>]) \<and>
   (is_final p \<noteq> Some True \<longrightarrow> ontranscript text p c = c\<lparr>transcript := text\<rparr>)"
  by (simp add: transcripts_messages ontranscript_messages)
    (simp add: ontranscript_def truthy_final_def Let_def)

theorem ontranscript_appends_witness:
  "messages (transcripts [(js ''hel'', \<lparr>is_final = None\<rparr>),
      (js ''hello'', \<lparr>is_final = Some True\<rparr>), (js ''wor'', \<lparr>is_final = Some False\<rparr>),
      ([], \<lparr>is_final = Some True\<rparr>), (js ''world'', \<lparr>is_final = Some True\<rparr>)] initial) =
     [\<lparr>msg_type = user, msg_text = js ''hello''\<rparr>,
      \<lparr>msg_type = user, msg_text = js ''world''\<rparr>] \<and>
   messages (ontranscript (js ''hello'') \<lparr>is_final = Some True\<rparr> initial) =
     [\<lparr>msg_type = user, msg_text = js ''hello''\<rparr>] \<and>
   ontranscript (js ''hel'') \<lparr>is_final = None\<rparr> initial = initial\<lparr>transcript := js ''hel''\<rparr>"
  using ontranscript_appends [of "[(js ''hel'', \<lparr>is_final = None\<rparr>),
      (js ''hello'', \<lparr>is_final = Some True\<rparr>), (js ''wor'', \<lparr>is_final = Some False\<rparr>),
      ([], \<lparr>is_final = Some True\<rparr>), (js ''world'', \<lparr>is_final = Some True\<rparr>)]" initial
      "\<lparr>is_final = Some True\<rparr>" "js ''hello''"]
    ontranscript_appends [of "[]" initial "\<lparr>is_final = None\<rparr>" "js ''hel''"]
  by (simp add: initial_def js_def)

text \<open>
  C2. A final response-text event appends exactly one agent Message carrying the event's
  text and changes nothing else; a response-text event that is not final leaves the whole
  state as it was.
\<close>

theorem onresponsetext_final_only:
  "(is_final p = Some True \<longrightarrow>
      onresponsetext text p c =
        c\<lparr>messages := messages c @ [\<lparr>msg_type = agent, msg_text = text\<rparr>]\<rparr>) \<and>
   (is_final p \<noteq> Some True \<longrightarrow> onresponsetext text p c = c)"
  by (simp add: onresponsetext_def truthy_final_def)

theorem onresponsetext_final_only_witness:
  "onresponsetext (js ''hi'') \<lparr>is_final = Some True\<rparr> initial =
     initial\<lparr>messages := [\<lparr>msg_type = agent, msg_text = js ''hi''\<rparr>]\<rparr> \<and>
   onresponsetext (js ''h'') \<lparr>is_final = Some False\<rparr> initial = initial \<and>
   onresponsetext (js ''h'') \<lparr>is_final = None\<rparr> initial = initial"
  using onresponsetext_final_only [of "\<lparr>is_final = Some True\<rparr>" "js ''hi''" initial]
    onresponsetext_final_only [of "\<lparr>is_final = Some False\<rparr>" "js ''h''" initial]
    onresponsetext_final_only [of "\<lparr>is_final = None\<rparr>" "js ''h''" initial]
  by (simp add: initial_def)

section \<open>The close event\<close>

subsection \<open>The rendered code is the decimal numeral of the code\<close>

lemma unat_digit: "d < 10 \<Longrightarrow> unat (digit d) = 48 + d"
proof -
  assume d: "d < 10"
  have "unat (digit d) = (48 + d) mod 2 ^ 16"
    unfolding digit_def by (simp only: unat_of_nat len_bit0 len_num1 mult_num_simps) simp
  then show ?thesis using d by simp
qed

lemma isDigit_digit: "d < 10 \<Longrightarrow> isDigit (digit d)"
  by (simp add: isDigit_def word_le_nat_alt unat_digit)

lemma digit_value_digit: "d < 10 \<Longrightarrow> digit_value (digit d) = d"
  by (simp add: digit_value_def unat_digit)

lemma digit_eq_zero: "d < 10 \<Longrightarrow> digit d = 0x30 \<Longrightarrow> d = 0"
proof -
  assume d: "d < 10" and e: "digit d = 0x30"
  have "unat (digit d) = unat (0x30 :: 16 word)" using e by simp
  then show "d = 0" using d by (simp add: unat_digit)
qed

lemma toString_nonempty: "toString n \<noteq> []"
  by (subst toString.simps) simp

lemma toString_digits: "list_all isDigit (toString n)"
proof (induction n rule: toString.induct)
  case (1 n)
  show ?case
  proof (cases "n < 10")
    case True
    then show ?thesis by (subst toString.simps) (simp add: isDigit_digit)
  next
    case False
    with 1 show ?thesis by (subst toString.simps) (simp add: isDigit_digit)
  qed
qed

lemma toString_value: "foldl (\<lambda>a u. 10 * a + digit_value u) 0 (toString n) = n"
proof (induction n rule: toString.induct)
  case (1 n)
  show ?case
  proof (cases "n < 10")
    case True
    then show ?thesis by (subst toString.simps) (simp add: digit_value_digit)
  next
    case False
    with 1 show ?thesis by (subst toString.simps) (simp add: digit_value_digit)
  qed
qed

lemma toString_hd: "0 < n \<Longrightarrow> hd (toString n) \<noteq> 0x30"
proof (induction n rule: toString.induct)
  case (1 n)
  show ?case
  proof (cases "n < 10")
    case True
    with 1(2) show ?thesis
      by (subst toString.simps) (auto dest: digit_eq_zero)
  next
    case False
    then have "0 < n div 10" by simp
    with 1(1) False have "hd (toString (n div 10)) \<noteq> 0x30" by simp
    with False show ?thesis
      by (subst toString.simps) (simp add: toString_nonempty)
  qed
qed

lemma toString_length_one: "n < 10 \<Longrightarrow> length (toString n) = 1"
  by (subst toString.simps) simp

lemma numeral_value_toString: "numeral_value (toString n) = Some n"
proof (cases "n = 0")
  case True
  then show ?thesis
    by (simp add: numeral_value_def toString_nonempty toString_digits toString_value
        toString_length_one)
next
  case False
  then show ?thesis
    by (simp add: numeral_value_def toString_nonempty toString_digits toString_value
        toString_hd)
qed

text \<open>
  The numeral is pinned down by its value: the only string that denotes \<open>n\<close> is the one
  the handler renders.
\<close>

lemma isDigit_range: "isDigit u \<Longrightarrow> 48 \<le> unat u \<and> unat u \<le> 57"
  by (simp add: isDigit_def word_le_nat_alt)

lemma digit_value_less: "isDigit u \<Longrightarrow> digit_value u < 10"
  using isDigit_range [of u] unfolding digit_value_def by arith

lemma digit_digit_value: "isDigit u \<Longrightarrow> digit (digit_value u) = u"
proof -
  assume "isDigit u"
  then have "48 + (unat u - 48) = unat u" using isDigit_range [of u] by simp
  then have "digit (digit_value u) = of_nat (unat u)"
    by (simp only: digit_def digit_value_def)
  then show ?thesis by simp
qed

lemma numeral_fold_ge: "a \<le> foldl (\<lambda>a u. 10 * a + digit_value u) a ds"
proof (induction ds arbitrary: a)
  case Nil
  show ?case by simp
next
  case (Cons u ds)
  have "a \<le> 10 * a + digit_value u" by simp
  also have "\<dots> \<le> foldl (\<lambda>a u. 10 * a + digit_value u) (10 * a + digit_value u) ds"
    by (rule Cons.IH)
  finally show ?case by simp
qed

lemma numeral_fold_pos:
  assumes "ds \<noteq> []" "isDigit (hd ds)" "hd ds \<noteq> 0x30"
  shows "0 < foldl (\<lambda>a u. 10 * a + digit_value u) 0 ds"
proof -
  obtain u us where ds: "ds = u # us" using assms(1) by (cases ds) auto
  have "digit_value u \<noteq> 0"
  proof
    assume "digit_value u = 0"
    then have "digit (digit_value u) = digit 0" by simp
    then have "u = digit 0" using assms(2) ds by (simp add: digit_digit_value)
    then show False using assms(3) ds by (simp add: digit_def)
  qed
  then have "0 < digit_value u" by simp
  also have "\<dots> \<le> foldl (\<lambda>a u. 10 * a + digit_value u) (digit_value u) us"
    by (rule numeral_fold_ge)
  finally show ?thesis by (simp add: ds)
qed

lemma toString_numeral_fold:
  "ds \<noteq> [] \<Longrightarrow> list_all isDigit ds \<Longrightarrow> length ds = 1 \<or> hd ds \<noteq> 0x30 \<Longrightarrow>
   toString (foldl (\<lambda>a u. 10 * a + digit_value u) 0 ds) = ds"
proof (induction ds rule: rev_induct)
  case Nil
  then show ?case by simp
next
  case (snoc u ys)
  have u: "isDigit u" using snoc.prems(2) by simp
  show ?case
  proof (cases "ys = []")
    case True
    then show ?thesis
      using u by (subst toString.simps) (simp add: digit_value_less digit_digit_value)
  next
    case False
    then have hd: "hd ys \<noteq> 0x30" using snoc.prems(3) by simp
    have dig: "list_all isDigit ys" using snoc.prems(2) by simp
    have ih: "toString (foldl (\<lambda>a u. 10 * a + digit_value u) 0 ys) = ys"
      using snoc.IH False dig hd by simp
    have "isDigit (hd ys)" using False dig by (cases ys) auto
    then have pos: "0 < foldl (\<lambda>a u. 10 * a + digit_value u) 0 ys"
      using False hd by (simp add: numeral_fold_pos)
    define v where "v = foldl (\<lambda>a u. 10 * a + digit_value u) 0 ys"
    have d: "digit_value u < 10" using u by (rule digit_value_less)
    have "toString (10 * v + digit_value u) =
        toString ((10 * v + digit_value u) div 10) @ [digit ((10 * v + digit_value u) mod 10)]"
      using pos d unfolding v_def [symmetric] by (subst toString.simps) simp
    also have "\<dots> = toString v @ [digit (digit_value u)]" using d by simp
    also have "\<dots> = ys @ [u]" using ih u unfolding v_def by (simp add: digit_digit_value)
    finally show ?thesis by (simp add: v_def)
  qed
qed

lemma numeral_value_unique: "numeral_value ds = Some n \<Longrightarrow> ds = toString n"
  using toString_numeral_fold [of ds]
  by (auto simp: numeral_value_def split: if_splits)

subsection \<open>The handler\<close>

lemma close_message_contains_code:
  "sublist (toString (unat (code ev))) (close_message ev)"
  unfolding close_message_def by (rule sublist_appendI)

text \<open>
  C3. The close handler always sets isListening to false. With code 1000 it does not
  touch connectionError (an unset error stays unset). With any other code it sets
  connectionError to a non-empty string that contains a decimal numeral denoting the
  code: the string is the fixed text with that numeral after \<open>code: \<close> and the reason,
  or \<open>Unknown\<close>, at the end.
\<close>

theorem onclose_sets_error:
  "isListening (onclose ev c) = False \<and>
   (code ev = 1000 \<longrightarrow> connectionError (onclose ev c) = connectionError c) \<and>
   (code ev \<noteq> 1000 \<longrightarrow>
      (\<exists>m ds. connectionError (onclose ev c) = Some m \<and> m \<noteq> [] \<and>
         numeral_value ds = Some (unat (code ev)) \<and> sublist ds m \<and>
         m = js ''Connection closed unexpectedly (code: '' @ ds @ js ''). Reason: '' @
             (if reason ev \<noteq> [] then reason ev else js ''Unknown'')))"
proof -
  have "close_message ev \<noteq> []" by (simp add: close_message_def js_def)
  moreover have "sublist (toString (unat (code ev))) (close_message ev)"
    unfolding close_message_def by (rule sublist_appendI)
  ultimately have "code ev \<noteq> 1000 \<longrightarrow>
      (\<exists>m ds. connectionError (onclose ev c) = Some m \<and> m \<noteq> [] \<and>
         numeral_value ds = Some (unat (code ev)) \<and> sublist ds m \<and>
         m = js ''Connection closed unexpectedly (code: '' @ ds @ js ''). Reason: '' @
             (if reason ev \<noteq> [] then reason ev else js ''Unknown''))"
    using numeral_value_toString [of "unat (code ev)"]
    by (auto simp: onclose_def Let_def close_message_def)
  then show ?thesis by (simp add: onclose_def Let_def)
qed

theorem onclose_sets_error_witness:
  "isListening (onclose \<lparr>code = 1000, reason = []\<rparr> (initial\<lparr>isListening := True\<rparr>)) = False \<and>
   connectionError (onclose \<lparr>code = 1000, reason = []\<rparr> (initial\<lparr>isListening := True\<rparr>)) = None \<and>
   connectionError (onclose \<lparr>code = 1006, reason = []\<rparr> initial) =
     Some (js ''Connection closed unexpectedly (code: 1006). Reason: Unknown'') \<and>
   connectionError (onclose \<lparr>code = 4001, reason = js ''bye''\<rparr> initial) =
     Some (js ''Connection closed unexpectedly (code: 4001). Reason: bye'') \<and>
   numeral_value (js ''1006'') = Some 1006 \<and>
   sublist (js ''1006'') (js ''Connection closed unexpectedly (code: 1006). Reason: Unknown'')"
proof -
  have t: "toString 1006 = js ''1006''"
    by (simp add: toString.simps js_def digit_def)
  have t': "toString 4001 = js ''4001''"
    by (simp add: toString.simps js_def digit_def)
  have n: "numeral_value (js ''1006'') = Some 1006"
    by (simp add: numeral_value_def js_def isDigit_def digit_value_def)
  have m: "close_message \<lparr>code = 1006, reason = []\<rparr> =
      js ''Connection closed unexpectedly (code: 1006). Reason: Unknown''"
    by (simp add: close_message_def t) (simp add: js_def)
  have m': "close_message \<lparr>code = 4001, reason = js ''bye''\<rparr> =
      js ''Connection closed unexpectedly (code: 4001). Reason: bye''"
    by (simp add: close_message_def t') (simp add: js_def)
  have s: "sublist (js ''1006'') (close_message \<lparr>code = 1006, reason = []\<rparr>)"
    using close_message_contains_code [of "\<lparr>code = 1006, reason = []\<rparr>"] by (simp add: t)
  show ?thesis
    using onclose_sets_error [of "\<lparr>code = 1000, reason = []\<rparr>" "initial\<lparr>isListening := True\<rparr>"]
      onclose_sets_error [of "\<lparr>code = 1006, reason = []\<rparr>" initial]
      onclose_sets_error [of "\<lparr>code = 4001, reason = js ''bye''\<rparr>" initial] s
    by (simp add: n m m' initial_def onclose_def Let_def)
qed

section \<open>Starting a session\<close>

text \<open>
  C4. When the render that created the handler has permissionGranted false and the probe
  is refused, startVoiceAgent makes no call to the client, leaves connectionError set to
  the advisory string of the probe, and does not change isListening.
\<close>

theorem start_denied:
  "\<not> permissionGranted snap \<Longrightarrow>
   fst (startVoiceAgent e Rejects out snap c) = [] \<and>
   connectionError (snd (startVoiceAgent e Rejects out snap c)) =
     Some (js ''Microphone access is required for the voice agent to work.'') \<and>
   isListening (snd (startVoiceAgent e Rejects out snap c)) = isListening c"
  by (simp add: startVoiceAgent_def checkMicrophonePermission_def)

theorem start_denied_witness:
  "\<not> permissionGranted denied \<and>
   fst (startVoiceAgent demo_env Rejects Returns denied (onopen denied)) = [] \<and>
   connectionError (snd (startVoiceAgent demo_env Rejects Returns denied (onopen denied))) =
     Some (js ''Microphone access is required for the voice agent to work.'')"
proof -
  have h: "\<not> permissionGranted denied" by (simp add: denied_eq initial_def)
  show ?thesis
    using h start_denied [OF h, of demo_env Returns "onopen denied"] by simp
qed

text \<open>
  C10. An invocation of startVoiceAgent whose render has permissionGranted false does
  nothing but run the probe: it makes no call to the client and does not write
  isListening, whatever the probe answers. When the probe succeeds the state it leaves
  has permissionGranted true, and an invocation from the render of that state calls the
  client's start and sets isListening (client present, start returning).
\<close>

theorem start_guard_stale:
  "\<not> permissionGranted snap \<Longrightarrow>
   startVoiceAgent e pr out snap c = ([], checkMicrophonePermission pr c) \<and>
   isListening (snd (startVoiceAgent e pr out snap c)) = isListening c \<and>
   permissionGranted (snd (startVoiceAgent e Resolves out snap c)) \<and>
   (msClientRef c \<noteq> None \<longrightarrow>
      startVoiceAgent e pr Returns (snd (startVoiceAgent e Resolves out snap c))
          (snd (startVoiceAgent e Resolves out snap c)) =
        ([ClientStart (start_request e)],
         c\<lparr>permissionGranted := True, connectionError := None, isListening := True\<rparr>))"
  by (cases pr)
    (simp_all add: startVoiceAgent_def checkMicrophonePermission_def start_session_def Let_def)

theorem start_guard_stale_witness:
  "\<not> permissionGranted denied \<and>
   startVoiceAgent demo_env Resolves Returns denied denied =
     ([], denied\<lparr>permissionGranted := True\<rparr>) \<and>
   startVoiceAgent demo_env Resolves Returns (denied\<lparr>permissionGranted := True\<rparr>)
       (denied\<lparr>permissionGranted := True\<rparr>) =
     ([ClientStart (start_request demo_env)],
      denied\<lparr>permissionGranted := True, connectionError := None, isListening := True\<rparr>)"
proof -
  have h: "\<not> permissionGranted denied" by (simp add: denied_eq initial_def)
  have m: "msClientRef denied \<noteq> None" by (simp add: denied_eq initial_def)
  note t = start_guard_stale [OF h, of demo_env Resolves Returns denied]
  have 1: "startVoiceAgent demo_env Resolves Returns denied denied =
      ([], denied\<lparr>permissionGranted := True\<rparr>)"
    using t by (simp add: checkMicrophonePermission_def)
  have 2: "startVoiceAgent demo_env Resolves Returns (denied\<lparr>permissionGranted := True\<rparr>)
        (denied\<lparr>permissionGranted := True\<rparr>) =
      ([ClientStart (start_request demo_env)],
       denied\<lparr>permissionGranted := True, connectionError := None, isListening := True\<rparr>)"
    using t m by (simp add: startVoiceAgent_def start_session_def checkMicrophonePermission_def)
  show ?thesis using h 1 2 by simp
qed

section \<open>Stopping a session\<close>

lemma stopVoiceAgent_propagates:
  "msClientRef c \<noteq> None \<Longrightarrow> stopVoiceAgent Throws c = ([ClientStop], Threw c)"
  by (simp add: stopVoiceAgent_def)

text \<open>
  C5. The claim that stop always returns with isListening false fails when the client's
  stop throws during a session: the exception escapes and isListening is still true.
\<close>

theorem stop_throws_counterexample:
  "threw (snd (stopVoiceAgent Throws listening)) \<and>
   isListening (state_of (snd (stopVoiceAgent Throws listening)))"
  by (simp add: listening_eq stopVoiceAgent_def initial_def)

text \<open>
  C5, as amended. stopVoiceAgent calls the client's stop exactly when a client exists.
  Whenever that call returns, or there is no client to call, stopVoiceAgent returns with
  isListening false and nothing else changed, in every state; a second stop right after,
  under the same condition, returns with the same state as the first.
\<close>

theorem stop_idempotent:
  "fst (stopVoiceAgent out c) = (if msClientRef c \<noteq> None then [ClientStop] else []) \<and>
   (out = Returns \<or> msClientRef c = None \<longrightarrow>
      \<not> threw (snd (stopVoiceAgent out c)) \<and>
      state_of (snd (stopVoiceAgent out c)) = c\<lparr>isListening := False\<rparr> \<and>
      isListening (state_of (snd (stopVoiceAgent out c))) = False) \<and>
   ((out = Returns \<or> msClientRef c = None) \<and> (out2 = Returns \<or> msClientRef c = None) \<longrightarrow>
      snd (stopVoiceAgent out2 (state_of (snd (stopVoiceAgent out c)))) =
        snd (stopVoiceAgent out c))"
  by (cases out; cases out2) (simp_all add: stopVoiceAgent_def)

theorem stop_idempotent_witness:
  "snd (stopVoiceAgent Returns listening) = Returned mounted \<and>
   snd (stopVoiceAgent Returns mounted) = Returned mounted \<and>
   fst (stopVoiceAgent Returns listening) = [ClientStop] \<and>
   stopVoiceAgent Throws initial = ([], Returned initial)"
  using stop_idempotent [of Returns listening Returns] stop_idempotent [of Throws initial Throws]
  by (simp add: listening_eq mounted_eq initial_def stopVoiceAgent_def)

text \<open>
  C8. The claim that stopping clears the partial transcript fails after a partial
  transcript arrived during a session: the string is still there after the stop.
\<close>

theorem stop_keeps_transcript_counterexample:
  "transcript (state_of (snd (stopVoiceAgent Returns previewing))) \<noteq> []"
  by (simp add: previewing_eq stopVoiceAgent_def js_def)

text \<open>
  C8, as amended. stopVoiceAgent never writes the partial transcript; once it has
  returned, the preview of the partial transcript is no longer rendered, since it is
  shown only while isListening holds.
\<close>

theorem stop_hides_transcript:
  "transcript (state_of (snd (stopVoiceAgent out c))) = transcript c \<and>
   \<not> showsTranscript (state_of (snd (stopVoiceAgent Returns c)))"
  by (cases out) (simp_all add: stopVoiceAgent_def showsTranscript_def)

section \<open>Manual text input\<close>

text \<open>
  C9. When the trimmed input of the render is non-empty, handleSubmit appends exactly one
  user Message carrying the input, empties the input field and makes no call to the
  client; when the trimmed input is empty it changes nothing.
\<close>

theorem handleSubmit_local_echo:
  "(trim (inputText snap) \<noteq> [] \<longrightarrow>
      handleSubmit snap c =
        ([], c\<lparr>messages := messages c @ [\<lparr>msg_type = user, msg_text = inputText snap\<rparr>],
               inputText := []\<rparr>)) \<and>
   (trim (inputText snap) = [] \<longrightarrow> handleSubmit snap c = ([], c))"
  by (simp add: handleSubmit_def)

theorem handleSubmit_local_echo_witness:
  "handleSubmit (initial\<lparr>inputText := js '' hi ''\<rparr>) (initial\<lparr>inputText := js '' hi ''\<rparr>) =
     ([], initial\<lparr>messages := [\<lparr>msg_type = user, msg_text = js '' hi ''\<rparr>]\<rparr>) \<and>
   handleSubmit (initial\<lparr>inputText := js ''  ''\<rparr>) (initial\<lparr>inputText := js ''  ''\<rparr>) =
     ([], initial\<lparr>inputText := js ''  ''\<rparr>)"
proof -
  have a: "trim (js '' hi '') \<noteq> []" by (simp add: trim_def js_def isWhiteSpace_def)
  have b: "trim (js ''  '') = []" by (simp add: trim_def js_def isWhiteSpace_def)
  show ?thesis
    using handleSubmit_local_echo [of "initial\<lparr>inputText := js '' hi ''\<rparr>"
        "initial\<lparr>inputText := js '' hi ''\<rparr>"]
      handleSubmit_local_echo [of "initial\<lparr>inputText := js ''  ''\<rparr>"
        "initial\<lparr>inputText := js ''  ''\<rparr>"]
    by (simp add: a b initial_def)
qed

section \<open>The Message list only grows\<close>

lemma dispatch_prefix: "prefix (messages c) (messages (dispatch ev c))"
  by (cases ev)
    (simp_all add: onopen_def onready_def onaudio_def onresponsetext_def ontranscript_messages
      useraudioready_def onsessionended_def onclose_def onerror_def Let_def)

lemma checkMicrophonePermission_messages:
  "messages (checkMicrophonePermission pr c) = messages c"
  by (cases pr) (simp_all add: checkMicrophonePermission_def)

lemma start_session_messages: "messages (snd (start_session e out c)) = messages c"
  by (cases out) (simp_all add: start_session_def Let_def)

lemma startVoiceAgent_messages: "messages (snd (startVoiceAgent e pr out snap c)) = messages c"
  by (simp add: startVoiceAgent_def Let_def start_session_messages
      checkMicrophonePermission_messages)

lemma stopVoiceAgent_messages: "messages (state_of (snd (stopVoiceAgent out c))) = messages c"
  by (cases out) (simp_all add: stopVoiceAgent_def)

lemma handleSubmit_prefix: "prefix (messages c) (messages (snd (handleSubmit snap c)))"
  by (simp add: handleSubmit_def)

lemma mount_effect_messages: "messages (fst (mount_effect e pr snap c)) = messages c"
  by (simp add: mount_effect_def Let_def checkMicrophonePermission_messages)

text \<open>
  C6. Whatever the component does in one step (the mount effect, an event of the SDK,
  the permission probe, start, stop, submit, typing), the Message list before the step
  is a prefix of the Message list after it.
\<close>

theorem messages_append_only:
  "prefix (messages c) (messages (step a snap c))"
  by (cases a)
    (simp_all add: dispatch_prefix checkMicrophonePermission_messages startVoiceAgent_messages
      stopVoiceAgent_messages handleSubmit_prefix mount_effect_messages onChange_def)

theorem messages_append_only_witness:
  "prefix [\<lparr>msg_type = agent, msg_text = js ''hello''\<rparr>]
     (messages (step A_handleSubmit
        (initial\<lparr>inputText := js ''hi'', messages := [\<lparr>msg_type = agent, msg_text = js ''hello''\<rparr>]\<rparr>)
        (initial\<lparr>inputText := js ''hi'', messages := [\<lparr>msg_type = agent, msg_text = js ''hello''\<rparr>]\<rparr>))) \<and>
   messages (step A_handleSubmit
        (initial\<lparr>inputText := js ''hi'', messages := [\<lparr>msg_type = agent, msg_text = js ''hello''\<rparr>]\<rparr>)
        (initial\<lparr>inputText := js ''hi'', messages := [\<lparr>msg_type = agent, msg_text = js ''hello''\<rparr>]\<rparr>)) =
     [\<lparr>msg_type = agent, msg_text = js ''hello''\<rparr>, \<lparr>msg_type = user, msg_text = js ''hi''\<rparr>]"
proof -
  have a: "trim (js ''hi'') \<noteq> []" by (simp add: trim_def js_def isWhiteSpace_def)
  show ?thesis
    using messages_append_only [of
        "initial\<lparr>inputText := js ''hi'', messages := [\<lparr>msg_type = agent, msg_text = js ''hello''\<rparr>]\<rparr>"
        A_handleSubmit
        "initial\<lparr>inputText := js ''hi'', messages := [\<lparr>msg_type = agent, msg_text = js ''hello''\<rparr>]\<rparr>"]
    by (simp add: handleSubmit_def a initial_def)
qed

section \<open>Unmounting\<close>

lemma unmount_never_stops: "unmount e pr c = []"
  by (simp add: unmount_def mount_def mount_effect_def cleanup_def initial_def Let_def)

text \<open>
  C7. The component is mounted with the microphone granted and a session is started:
  the client's start is called and isListening holds. The cleanup run at unmount in that
  state makes no call to the client: it tests the isListening of the first render.
\<close>

theorem unmount_while_listening:
  "fst (startVoiceAgent demo_env Resolves Returns mounted mounted) =
     [ClientStart (start_request demo_env)] \<and>
   isListening listening \<and> msClientRef listening \<noteq> None \<and>
   unmount demo_env Resolves listening = []"
  by (simp add: listening_eq unmount_never_stops)
    (simp add: mounted_eq startVoiceAgent_def start_session_def initial_def)

end
